theory Spec2Isabelle
  imports Complex_Main "HOL-Library.Multiset"
begin

chapter \<open>The places search feature: embedding\<close>

text \<open>
  A shallow embedding of the search, classification, filtering and navigation logic of the
  places feature. JavaScript numbers are modelled as real numbers with exact arithmetic
  (\<open>NaN\<close>, the infinities and rounding are outside the model), optional fields as \<open>option\<close>,
  arrays as lists, and the truthiness tests of the source (\<open>if (x)\<close>, \<open>x || y\<close>, \<open>!x\<close>) are
  written out case by case. Asynchronous code is modelled by the state changes it makes,
  one event at a time, as the single-threaded event loop runs it.
  The haversine distance functions of the two services are left out: what they return for
  nearly antipodal points is decided by binary64 rounding, which this model of numbers does
  not have.
\<close>

section \<open>Data model (\<open>app/types/places.ts\<close>)\<close>

record Coordinates =
  lat :: real
  lng :: real

datatype PlaceType = RESTAURANTS | PARKINGS | HOTELS

datatype PlaceClassification = EXCELLENT | VERY_GOOD | GOOD | AVERAGE | POOR

datatype Sentiment = Positive | Neutral | Negative

record AIAnalysis =
  classification :: PlaceClassification
  confidence :: real
  summary :: string
  pros :: "string list"
  cons :: "string list"
  sentiment :: Sentiment
  analysisKeywords :: "string list"

text \<open>
  \<open>Place\<close>: the field \<open>id\<close> is \<open>placeId\<close> here. The presentation fields \<open>photoUrl\<close>,
  \<open>websiteUrl\<close>, \<open>phoneNumber\<close>, \<open>openingHours\<close> and \<open>reviews\<close> are read by no operation
  modelled below and are left out.
\<close>

record Place =
  placeId :: string
  name :: string
  address :: string
  coordinates :: Coordinates
  rating :: real
  totalReviews :: nat
  priceLevel :: "nat option"
  aiAnalysis :: "AIAnalysis option"
  distance :: "real option"

record PlaceSearchParams =
  location :: Coordinates
  placeType :: PlaceType
  radius :: real
  keyword :: "string option"
  minRating :: "real option"
  paramPriceLevel :: "nat list option"
  openNow :: "bool option"

record PlaceSearchResult =
  places :: "Place list"
  totalFound :: nat
  searchParams :: PlaceSearchParams
  searchTime :: nat
  nextPageToken :: "string option"

text \<open>
  \<open>Partial<PlaceFilters>\<close>: every field may be absent. \<open>rating: {min, max}\<close> and
  \<open>distance: {max}\<close> are records of their own.
\<close>

record RatingFilter =
  ratingMin :: real
  ratingMax :: real

record DistanceFilter =
  distanceMax :: real

record PlaceFilters =
  filterRating :: "RatingFilter option"
  filterPriceLevel :: "nat list option"
  filterOpenNow :: "bool option"
  filterDistance :: "DistanceFilter option"
  filterFeatures :: "string list option"

section \<open>Classification (\<open>MockOpenAIService\<close>, \<open>getClassificationFromRating\<close>)\<close>

text \<open>The utility of the classification badge (and of the mock data generator).\<close>

definition getClassificationFromRating :: "real \<Rightarrow> PlaceClassification" where
  "getClassificationFromRating r =
     (if r \<ge> 4.5 then EXCELLENT
      else if r \<ge> 4.0 then VERY_GOOD
      else if r \<ge> 3.5 then GOOD
      else if r \<ge> 3.0 then AVERAGE
      else POOR)"

text \<open>
  \<open>MockOpenAIService.getClassificationFromMetrics\<close>: the two local constants of the source
  are definitions of their own.
\<close>

definition confidenceMultiplier :: "nat \<Rightarrow> real" where
  "confidenceMultiplier reviewCount = min (real reviewCount / 100) 1"

definition adjustedRating :: "real \<Rightarrow> nat \<Rightarrow> real" where
  "adjustedRating r reviewCount = r * (0.7 + 0.3 * confidenceMultiplier reviewCount)"

definition getClassificationFromMetrics :: "real \<Rightarrow> nat \<Rightarrow> PlaceClassification" where
  "getClassificationFromMetrics r reviewCount =
     (if adjustedRating r reviewCount \<ge> 4.5 then EXCELLENT
      else if adjustedRating r reviewCount \<ge> 4.0 then VERY_GOOD
      else if adjustedRating r reviewCount \<ge> 3.5 then GOOD
      else if adjustedRating r reviewCount \<ge> 3.0 then AVERAGE
      else POOR)"

text \<open>
  \<open>MockOpenAIService.analyzePlaceReviews\<close>. The table \<open>mockAIAnalyses\<close> and the summary
  templates are parameters; the two calls of \<open>Math.random()\<close> are the draws \<open>u\<close> (confidence)
  and \<open>v\<close> (template choice), each in \<open>[0, 1)\<close>. The object spread keeps every field of the
  base analysis but \<open>summary\<close> and \<open>confidence\<close>.
\<close>

definition analyzePlaceReviews ::
  "(PlaceClassification \<Rightarrow> AIAnalysis) \<Rightarrow> (Place \<Rightarrow> PlaceClassification \<Rightarrow> real \<Rightarrow> string)
     \<Rightarrow> Place \<Rightarrow> real \<Rightarrow> real \<Rightarrow> AIAnalysis" where
  "analyzePlaceReviews mockAIAnalyses generateCustomSummary place u v =
     (let cls = getClassificationFromMetrics (rating place) (totalReviews place);
          baseAnalysis = mockAIAnalyses cls
      in baseAnalysis\<lparr>summary := generateCustomSummary place cls v,
                       confidence := u * 0.2 + 0.8\<rparr>)"

section \<open>Search (\<open>MockPlacesService.searchPlaces\<close>)\<close>

text \<open>
  \<open>String.prototype.toLowerCase\<close> on the ASCII letters, and \<open>String.prototype.includes\<close>
  (substring test).
\<close>

definition lowerChar :: "char \<Rightarrow> char" where
  "lowerChar c =
     (let n = (of_char c :: nat)
      in if 65 \<le> n \<and> n \<le> 90 then char_of (n + 32) else c)"

definition toLowerCase :: "string \<Rightarrow> string" where
  "toLowerCase s = map lowerChar s"

fun startsWith :: "string \<Rightarrow> string \<Rightarrow> bool" where
  "startsWith s [] = True"
| "startsWith [] (k # ks) = False"
| "startsWith (c # cs) (k # ks) = (c = k \<and> startsWith cs ks)"

fun stringIncludes :: "string \<Rightarrow> string \<Rightarrow> bool" where
  "stringIncludes [] k = (k = [])"
| "stringIncludes (c # cs) k = (startsWith (c # cs) k \<or> stringIncludes cs k)"

text \<open>\<open>x || 0\<close> on an optional number.\<close>

definition orZero :: "real option \<Rightarrow> real" where
  "orZero d = (case d of None \<Rightarrow> 0 | Some x \<Rightarrow> x)"

text \<open>The comparator passed to \<open>sort\<close>: negative when \<open>a\<close> goes first.\<close>

definition byRatingThenDistance :: "Place \<Rightarrow> Place \<Rightarrow> real" where
  "byRatingThenDistance a b =
     (let ratingDiff = rating b - rating a
      in if \<bar>ratingDiff\<bar> < 0.1 then orZero (distance a) - orZero (distance b)
         else ratingDiff)"

text \<open>
  \<open>Array.prototype.sort\<close> with a comparator: a stable sort, here by insertion. An element
  stays in front of the elements it does not compare greater than.
\<close>

fun insertBy :: "('a \<Rightarrow> 'a \<Rightarrow> real) \<Rightarrow> 'a \<Rightarrow> 'a list \<Rightarrow> 'a list" where
  "insertBy cmp x [] = [x]"
| "insertBy cmp x (y # ys) = (if cmp x y \<le> 0 then x # y # ys else y # insertBy cmp x ys)"

definition arraySort :: "('a \<Rightarrow> 'a \<Rightarrow> real) \<Rightarrow> 'a list \<Rightarrow> 'a list" where
  "arraySort cmp xs = foldr (insertBy cmp) xs []"

text \<open>
  The two filters of \<open>searchPlaces\<close>. \<open>if (params.minRating)\<close> and \<open>if (params.keyword)\<close>
  skip an absent value, the number \<open>0\<close> and the empty string.
\<close>

definition applyMinRating :: "real option \<Rightarrow> Place list \<Rightarrow> Place list" where
  "applyMinRating m ps =
     (case m of
        None \<Rightarrow> ps
      | Some r \<Rightarrow> if r = 0 then ps else filter (\<lambda>place. rating place \<ge> r) ps)"

definition applyKeyword :: "string option \<Rightarrow> Place list \<Rightarrow> Place list" where
  "applyKeyword k ps =
     (case k of
        None \<Rightarrow> ps
      | Some w \<Rightarrow>
          if w = [] then ps
          else filter (\<lambda>place. stringIncludes (toLowerCase (name place)) (toLowerCase w)
                            \<or> stringIncludes (toLowerCase (address place)) (toLowerCase w)) ps)"

text \<open>The candidates after both filters, before sorting and truncation.\<close>

definition filteredCandidates :: "PlaceSearchParams \<Rightarrow> Place list \<Rightarrow> Place list" where
  "filteredCandidates params allPlaces =
     applyKeyword (keyword params) (applyMinRating (minRating params) allPlaces)"

text \<open>
  \<open>searchPlaces\<close>: \<open>allPlaces\<close> is what \<open>generateMockPlaces(params.type, params.location, 15)\<close>
  returned (it draws random numbers), \<open>now\<close> is \<open>Date.now()\<close>.
\<close>

definition searchPlaces :: "PlaceSearchParams \<Rightarrow> Place list \<Rightarrow> nat \<Rightarrow> PlaceSearchResult" where
  "searchPlaces params allPlaces now =
     (let filteredPlaces = arraySort byRatingThenDistance (filteredCandidates params allPlaces)
      in \<lparr>places = take 10 filteredPlaces,
          totalFound = length filteredPlaces,
          searchParams = params,
          searchTime = now,
          nextPageToken = (if length filteredPlaces > 10 then Some ''next_page_token_123''
                           else None)\<rparr>)"

text \<open>
  The order the specification describes, in its words: rating descending, the distance
  ascending deciding when the two ratings differ by less than \<open>0.1\<close>.
\<close>

definition spec_rankedBefore :: "Place \<Rightarrow> Place \<Rightarrow> bool" where
  "spec_rankedBefore a b =
     (if \<bar>rating a - rating b\<bar> < 0.1 then orZero (distance a) \<le> orZero (distance b)
      else rating b < rating a)"


text \<open>
  The binary64 values of the literals \<open>4.4\<close> and \<open>4.6\<close> (\<open>4.5\<close> is exact): ratings that
  \<open>Number(rating.toFixed(1))\<close> of the mock generator produces. Their differences with
  \<open>4.5\<close> are computed without rounding, and are below \<open>0.1\<close> and below its binary64 value.
\<close>

definition double_4_4 :: real where
  "double_4_4 = 2476979795053773 / 562949953421312"

definition double_4_6 :: real where
  "double_4_6 = 2589569785738035 / 562949953421312"

definition mockPlace :: "string \<Rightarrow> real \<Rightarrow> real \<Rightarrow> Place" where
  "mockPlace i r d =
     \<lparr>placeId = i, name = ''La Mama'', address = ''Strada 7, Bucuresti'',
      coordinates = \<lparr>lat = 44.4268, lng = 26.1025\<rparr>, rating = r, totalReviews = 120,
      priceLevel = Some 2, aiAnalysis = None, distance = Some d\<rparr>"

text \<open>Three mock restaurants whose ratings tie with their neighbours' and not end to end.\<close>

definition cycA :: Place where
  "cycA = mockPlace ''restaurant_1'' double_4_4 100"

definition cycB :: Place where
  "cycB = mockPlace ''restaurant_2'' 4.5 200"

definition cycC :: Place where
  "cycC = mockPlace ''restaurant_3'' double_4_6 300"


definition bucharestParams :: PlaceSearchParams where
  "bucharestParams =
     \<lparr>location = \<lparr>lat = 44.4268, lng = 26.1025\<rparr>, placeType = RESTAURANTS, radius = 2000,
      keyword = None, minRating = None, paramPriceLevel = None, openNow = None\<rparr>"


section \<open>Client-side filters (\<open>usePlacesSearch\<close>, \<open>filteredPlaces\<close>)\<close>

text \<open>
  \<open>filteredPlaces\<close>: the body of the \<open>useMemo\<close>. The fetched array is copied by a spread and
  narrowed by up to three calls of \<open>Array.prototype.filter\<close>, which builds a new array each
  time; the function returns the view and nothing else. \<open>if (filters.distance?.max)\<close> also
  skips the maximum \<open>0\<close>; \<open>place.priceLevel && ...\<close> and \<open>!place.distance\<close> treat an absent
  value and \<open>0\<close> alike.
\<close>

definition filteredPlaces :: "PlaceSearchResult option \<Rightarrow> PlaceFilters \<Rightarrow> Place list" where
  "filteredPlaces searchResult filters =
     (case searchResult of
        None \<Rightarrow> []
      | Some res \<Rightarrow>
          (let places0 = places res;
               places1 =
                 (case filterRating filters of
                    None \<Rightarrow> places0
                  | Some r \<Rightarrow>
                      filter (\<lambda>place. rating place \<ge> ratingMin r \<and> rating place \<le> ratingMax r)
                        places0);
               places2 =
                 (case filterPriceLevel filters of
                    None \<Rightarrow> places1
                  | Some levels \<Rightarrow>
                      if length levels > 0
                      then filter (\<lambda>place. case priceLevel place of
                                              None \<Rightarrow> False
                                            | Some l \<Rightarrow> l \<noteq> 0 \<and> l \<in> set levels) places1
                      else places1);
               places3 =
                 (case filterDistance filters of
                    None \<Rightarrow> places2
                  | Some d \<Rightarrow>
                      if distanceMax d \<noteq> 0
                      then (let maxDistanceMeters = distanceMax d * 1000
                            in filter (\<lambda>place. case distance place of
                                                   None \<Rightarrow> True
                                                 | Some x \<Rightarrow> x = 0 \<or> x \<le> maxDistanceMeters)
                                 places2)
                      else places2)
           in places3))"

text \<open>
  The three clauses as predicates on a place. A clause is active when its filter is given,
  the price set is not empty and the maximum distance is not \<open>0\<close>; an inactive clause holds
  of every place.
\<close>

definition ratingClause :: "PlaceFilters \<Rightarrow> Place \<Rightarrow> bool" where
  "ratingClause filters place =
     (case filterRating filters of
        None \<Rightarrow> True
      | Some r \<Rightarrow> ratingMin r \<le> rating place \<and> rating place \<le> ratingMax r)"

definition priceLevelClause :: "PlaceFilters \<Rightarrow> Place \<Rightarrow> bool" where
  "priceLevelClause filters place =
     (case filterPriceLevel filters of
        None \<Rightarrow> True
      | Some levels \<Rightarrow>
          levels = [] \<or> (\<exists>l \<in> set levels. l \<noteq> 0 \<and> priceLevel place = Some l))"

definition distanceClause :: "PlaceFilters \<Rightarrow> Place \<Rightarrow> bool" where
  "distanceClause filters place =
     (case filterDistance filters of
        None \<Rightarrow> True
      | Some d \<Rightarrow>
          distanceMax d = 0 \<or> distance place = None \<or> distance place = Some 0
          \<or> (\<exists>x. distance place = Some x \<and> x \<le> distanceMax d * 1000))"

text \<open>
  The filter rule in the specification's words, for a filter set that gives all three
  clauses: rating within \<open>[min, max]\<close>, price level in the set when the set is not empty,
  distance at most \<open>max * 1000\<close> metres.
\<close>

definition spec_keeps :: "RatingFilter \<Rightarrow> nat list \<Rightarrow> DistanceFilter \<Rightarrow> Place \<Rightarrow> bool" where
  "spec_keeps r levels d place =
     (ratingMin r \<le> rating place \<and> rating place \<le> ratingMax r
      \<and> (levels = [] \<or> (\<exists>l \<in> set levels. priceLevel place = Some l))
      \<and> (\<exists>x. distance place = Some x \<and> x \<le> distanceMax d * 1000))"

definition noFilters :: PlaceFilters where
  "noFilters =
     \<lparr>filterRating = None, filterPriceLevel = None, filterOpenNow = None,
      filterDistance = None, filterFeatures = None\<rparr>"

text \<open>The filter set after \<open>resetFilters\<close>, and a fetched set of four rated places.\<close>

definition resetFilters :: PlaceFilters where
  "resetFilters =
     \<lparr>filterRating = Some \<lparr>ratingMin = 0, ratingMax = 5\<rparr>, filterPriceLevel = Some [],
      filterOpenNow = Some False, filterDistance = Some \<lparr>distanceMax = 5\<rparr>,
      filterFeatures = Some []\<rparr>"

definition fetchedFour :: PlaceSearchResult where
  "fetchedFour =
     \<lparr>places = [mockPlace ''restaurant_1'' 3.2 500, mockPlace ''restaurant_2'' 4.1 500,
                mockPlace ''restaurant_3'' 4.9 500, mockPlace ''restaurant_4'' 5.0 500],
      totalFound = 4, searchParams = bucharestParams, searchTime = 0,
      nextPageToken = None\<rparr>"

text \<open>A place as a provider without a location returns it: no distance.\<close>

definition unlocatedPlace :: Place where
  "unlocatedPlace = (mockPlace ''restaurant_5'' 4.4 0)\<lparr>distance := None\<rparr>"

section \<open>Navigation state in the URL (\<open>useNavigationState\<close>)\<close>

datatype NavigationMode = Mode_none | Mode_static | Mode_live

text \<open>
  The hook keeps its state in the query string: the parameters \<open>nav\<close> and \<open>destination\<close>,
  each absent or a string. A value read by the hook is the default for an absent parameter
  and \<open>parse\<close> of the string otherwise; a setter writes \<open>serialize\<close> of the value, and
  removes the parameter for \<open>null\<close>.
\<close>

record NavigationUrl =
  navParam :: "string option"
  destinationParam :: "string option"

definition parseNavigationMode :: "string \<Rightarrow> NavigationMode" where
  "parseNavigationMode v =
     (if v = ''static'' then Mode_static else if v = ''live'' then Mode_live else Mode_none)"

fun serializeNavigationMode :: "NavigationMode \<Rightarrow> string" where
  "serializeNavigationMode Mode_none = ''none''"
| "serializeNavigationMode Mode_static = ''static''"
| "serializeNavigationMode Mode_live = ''live''"

definition navigationMode :: "NavigationUrl \<Rightarrow> NavigationMode" where
  "navigationMode u =
     (case navParam u of None \<Rightarrow> Mode_none | Some v \<Rightarrow> parseNavigationMode v)"

text \<open>
  \<open>parse: (value) => value || null\<close>; \<open>serialize: (value) => value || ''\<close> is the identity on
  strings.
\<close>

definition parseDestination :: "string \<Rightarrow> string option" where
  "parseDestination v = (if v = [] then None else Some v)"

definition destinationId :: "NavigationUrl \<Rightarrow> string option" where
  "destinationId u =
     (case destinationParam u of None \<Rightarrow> None | Some v \<Rightarrow> parseDestination v)"

definition setNavigationMode :: "NavigationMode \<Rightarrow> NavigationUrl \<Rightarrow> NavigationUrl" where
  "setNavigationMode m u = u\<lparr>navParam := Some (serializeNavigationMode m)\<rparr>"

definition setDestinationId :: "string option \<Rightarrow> NavigationUrl \<Rightarrow> NavigationUrl" where
  "setDestinationId d u = u\<lparr>destinationParam := d\<rparr>"

definition startNavigation :: "string \<Rightarrow> NavigationMode \<Rightarrow> NavigationUrl \<Rightarrow> NavigationUrl" where
  "startNavigation pid m u = setNavigationMode m (setDestinationId (Some pid) u)"

definition stopNavigation :: "NavigationUrl \<Rightarrow> NavigationUrl" where
  "stopNavigation u = setNavigationMode Mode_none (setDestinationId None u)"

definition isNavigating :: "NavigationUrl \<Rightarrow> bool" where
  "isNavigating u = (navigationMode u \<noteq> Mode_none)"

definition isLiveNavigation :: "NavigationUrl \<Rightarrow> bool" where
  "isLiveNavigation u = (navigationMode u = Mode_live)"

text \<open>The URL without either parameter: the state of a first visit.\<close>

definition emptyUrl :: NavigationUrl where
  "emptyUrl = \<lparr>navParam = None, destinationParam = None\<rparr>"

text \<open>The invariant of the specification: a destination is set iff the mode is not none.\<close>

definition navInvariant :: "NavigationUrl \<Rightarrow> bool" where
  "navInvariant u = ((destinationId u \<noteq> None) = (navigationMode u \<noteq> Mode_none))"

text \<open>
  The states reached by navigating the way the map does: from the empty URL, or a URL that
  holds a mode \<open>static\<close> or \<open>live\<close> together with a destination, by \<open>startNavigation\<close> with
  a place id and a mode \<open>static\<close> or \<open>live\<close>, and by \<open>stopNavigation\<close>.
\<close>

inductive navigated :: "NavigationUrl \<Rightarrow> bool" where
  fresh: "navigated emptyUrl"
| restored: "v = ''static'' \<or> v = ''live'' \<Longrightarrow> d \<noteq> [] \<Longrightarrow>
     navigated \<lparr>navParam = Some v, destinationParam = Some d\<rparr>"
| started: "navigated u \<Longrightarrow> m \<noteq> Mode_none \<Longrightarrow> pid \<noteq> [] \<Longrightarrow>
     navigated (startNavigation pid m u)"
| stopped: "navigated u \<Longrightarrow> navigated (stopNavigation u)"

text \<open>
  The states within reach of the whole interface of the hook: any URL the page may be
  opened with, and whatever \<open>startNavigation\<close>, \<open>stopNavigation\<close> and \<open>setNavigationMode\<close>
  make of it.
\<close>

inductive apiReachable :: "NavigationUrl \<Rightarrow> bool" where
  fromUrl: "apiReachable \<lparr>navParam = n, destinationParam = d\<rparr>"
| byStart: "apiReachable u \<Longrightarrow> apiReachable (startNavigation pid m u)"
| byStop: "apiReachable u \<Longrightarrow> apiReachable (stopNavigation u)"
| bySetMode: "apiReachable u \<Longrightarrow> apiReachable (setNavigationMode m u)"

section \<open>The map's navigation effect (\<open>MapContainer\<close>)\<close>

text \<open>
  The props the effect reads, and the state it works on: the URL state of the hook, the
  two refs, and the watches the geolocation capability holds open (\<open>watchPosition\<close> hands
  out the next id, \<open>clearWatch\<close> closes one).
\<close>

record MapProps =
  center :: "Coordinates option"
  markers :: "Place list"
  hasGeolocation :: bool

record MapState =
  url :: NavigationUrl
  locationWatchIdRef :: "nat option"
  directionsRendererRef :: bool
  openWatches :: "nat list"
  nextWatchId :: nat
  routeRequests :: nat

definition currentDestination :: "MapProps \<Rightarrow> MapState \<Rightarrow> Place option" where
  "currentDestination props s =
     (case destinationId (url s) of
        None \<Rightarrow> None
      | Some d \<Rightarrow> find (\<lambda>m. placeId m = d) (markers props))"

text \<open>
  \<open>calculateRoute\<close> as the effect calls it: one request to the routing provider. The
  confirmation dialogue of its callback is behind \<open>if (!isNavigating)\<close>, and the effect calls
  it in the modes \<open>static\<close> and \<open>live\<close> only.
\<close>

definition calculateRoute :: "MapState \<Rightarrow> MapState" where
  "calculateRoute s = s\<lparr>routeRequests := routeRequests s + 1\<rparr>"

definition startRealTimeNavigation :: "MapProps \<Rightarrow> MapState \<Rightarrow> MapState" where
  "startRealTimeNavigation props s =
     (if hasGeolocation props
      then s\<lparr>locationWatchIdRef := Some (nextWatchId s),
             openWatches := openWatches s @ [nextWatchId s],
             nextWatchId := nextWatchId s + 1\<rparr>
      else s)"

text \<open>\<open>if (locationWatchIdRef.current) { clearWatch(...); locationWatchIdRef.current = null }\<close>.\<close>

definition clearLocationWatch :: "MapState \<Rightarrow> MapState" where
  "clearLocationWatch s =
     (case locationWatchIdRef s of
        None \<Rightarrow> s
      | Some w \<Rightarrow>
          if w = 0 then s
          else s\<lparr>openWatches := removeAll w (openWatches s), locationWatchIdRef := None\<rparr>)"

definition navigationEffect :: "MapProps \<Rightarrow> MapState \<Rightarrow> MapState" where
  "navigationEffect props s =
     (if center props = None \<or> currentDestination props s = None then s
      else
        (let s1 = s\<lparr>directionsRendererRef := True\<rparr>
         in case navigationMode (url s1) of
              Mode_static \<Rightarrow> calculateRoute s1
            | Mode_live \<Rightarrow> startRealTimeNavigation props (calculateRoute s1)
            | Mode_none \<Rightarrow> clearLocationWatch (s1\<lparr>directionsRendererRef := False\<rparr>)))"

text \<open>
  After a handler has changed the state, the component renders again and the effect runs
  when one of its dependencies \<open>[navigationMode, currentDestination, center]\<close> has changed.
\<close>

definition rerender :: "MapProps \<Rightarrow> MapState \<Rightarrow> MapState \<Rightarrow> MapState" where
  "rerender props before after =
     (if navigationMode (url after) \<noteq> navigationMode (url before)
         \<or> currentDestination props after \<noteq> currentDestination props before
      then navigationEffect props after
      else after)"

definition handleStaticRoute :: "MapProps \<Rightarrow> Place \<Rightarrow> MapState \<Rightarrow> MapState" where
  "handleStaticRoute props place s =
     (if center props = None then s
      else rerender props s (s\<lparr>url := startNavigation (placeId place) Mode_static (url s)\<rparr>))"

definition handleLiveNavigation :: "MapProps \<Rightarrow> Place \<Rightarrow> MapState \<Rightarrow> MapState" where
  "handleLiveNavigation props place s =
     (if center props = None then s
      else rerender props s (s\<lparr>url := startNavigation (placeId place) Mode_live (url s)\<rparr>))"

definition handleStopNavigation :: "MapProps \<Rightarrow> MapState \<Rightarrow> MapState" where
  "handleStopNavigation props s =
     rerender props s
       ((clearLocationWatch (s\<lparr>url := stopNavigation (url s)\<rparr>))\<lparr>directionsRendererRef := False\<rparr>)"

text \<open>The map as mounted, before any navigation; the first watch id is \<open>1\<close>.\<close>

definition mountedMap :: MapState where
  "mountedMap =
     \<lparr>url = emptyUrl, locationWatchIdRef = None, directionsRendererRef = False,
      openWatches = [], nextWatchId = 1, routeRequests = 0\<rparr>"

definition placeX :: Place where
  "placeX = mockPlace ''restaurant_1'' 4.7 300"

definition placeY :: Place where
  "placeY = mockPlace ''restaurant_2'' 4.2 450"

definition bucharestMap :: MapProps where
  "bucharestMap =
     \<lparr>center = Some \<lparr>lat = 44.4268, lng = 26.1025\<rparr>, markers = [placeX, placeY],
      hasGeolocation = True\<rparr>"

section \<open>The search hook and the query cache (\<open>usePlacesSearch\<close>)\<close>

text \<open>The table \<open>mockAIAnalyses\<close> of \<open>places-data.ts\<close>.\<close>

fun mockAIAnalyses :: "PlaceClassification \<Rightarrow> AIAnalysis" where
  "mockAIAnalyses EXCELLENT =
     \<lparr>classification = EXCELLENT, confidence = 0.92,
      summary = ''Outstanding establishment with consistently excellent reviews. Customers praise the quality, service, and atmosphere.'',
      pros = [''Exceptional food quality'', ''Outstanding service'', ''Great atmosphere'',
              ''Consistent experience''],
      cons = [''Higher price point'', ''Sometimes busy''],
      sentiment = Positive,
      analysisKeywords = [''amazing'', ''excellent'', ''outstanding'', ''perfect'', ''wonderful'']\<rparr>"
| "mockAIAnalyses VERY_GOOD =
     \<lparr>classification = VERY_GOOD, confidence = 0.87,
      summary = ''Very good place with mostly positive reviews. Minor areas for improvement but overall highly recommended.'',
      pros = [''Good food quality'', ''Friendly staff'', ''Nice location''],
      cons = [''Slightly expensive'', ''Occasional service delays''],
      sentiment = Positive,
      analysisKeywords = [''good'', ''nice'', ''friendly'', ''recommended'', ''quality'']\<rparr>"
| "mockAIAnalyses GOOD =
     \<lparr>classification = GOOD, confidence = 0.75,
      summary = ''Solid choice with decent reviews. Good value for money with room for improvement.'',
      pros = [''Reasonable prices'', ''Decent food'', ''Good location''],
      cons = [''Service could be better'', ''Limited menu options''],
      sentiment = Neutral,
      analysisKeywords = [''decent'', ''reasonable'', ''okay'', ''fair'', ''acceptable'']\<rparr>"
| "mockAIAnalyses AVERAGE =
     \<lparr>classification = AVERAGE, confidence = 0.68,
      summary = ''Mixed reviews with average performance. Some customers satisfied, others disappointed.'',
      pros = [''Affordable prices'', ''Central location''],
      cons = [''Inconsistent quality'', ''Service issues'', ''Limited options''],
      sentiment = Neutral,
      analysisKeywords = [''average'', ''mixed'', ''inconsistent'', ''basic'', ''standard'']\<rparr>"
| "mockAIAnalyses POOR =
     \<lparr>classification = POOR, confidence = 0.81,
      summary = ''Consistently poor reviews citing quality and service issues. Not recommended.'',
      pros = [''Low prices''],
      cons = [''Poor food quality'', ''Bad service'', ''Unclean environment'', ''Long wait times''],
      sentiment = Negative,
      analysisKeywords = [''poor'', ''bad'', ''terrible'', ''disappointing'', ''avoid'']\<rparr>"

text \<open>
  The AI provider: the summary templates (they print numbers) and the random draws, the
  \<open>i\<close>-th call of \<open>analyzePlaceReviews\<close> taking the \<open>i\<close>-th pair.
\<close>

record AIProvider =
  generateCustomSummary :: "Place \<Rightarrow> PlaceClassification \<Rightarrow> real \<Rightarrow> string"
  random :: "nat \<Rightarrow> real \<times> real"

definition providerAnalyze :: "AIProvider \<Rightarrow> nat \<Rightarrow> Place \<Rightarrow> AIAnalysis" where
  "providerAnalyze ai i place =
     analyzePlaceReviews mockAIAnalyses (generateCustomSummary ai) place
       (fst (random ai i)) (snd (random ai i))"

text \<open>
  The static methods of \<open>MockOpenAIService\<close> reach one another through \<open>this\<close>:
  \<open>analyzePlaceReviews\<close> calls \<open>this.getClassificationFromMetrics\<close>, and the loop of
  \<open>batchAnalyzePlaces\<close> calls \<open>this.analyzePlaceReviews\<close>. Called on the class, \<open>this\<close> is the
  class. Taken off the class and called as a plain function value, \<open>this\<close> is not the class
  and has no such method: the first of these calls throws a \<open>TypeError\<close>. An empty batch
  never enters the loop and returns the empty record.
\<close>

datatype JsError = TypeError

datatype Receiver = OnClass | Detached

definition analyzePlaceReviewsAs ::
  "Receiver \<Rightarrow> AIProvider \<Rightarrow> nat \<Rightarrow> Place \<Rightarrow> JsError + AIAnalysis" where
  "analyzePlaceReviewsAs receiver ai i place =
     (case receiver of
        OnClass \<Rightarrow> Inr (providerAnalyze ai i place)
      | Detached \<Rightarrow> Inl TypeError)"

fun batchAnalyzePlaces ::
  "Receiver \<Rightarrow> AIProvider \<Rightarrow> nat \<Rightarrow> Place list \<Rightarrow> (string \<rightharpoonup> AIAnalysis)
     \<Rightarrow> JsError + (string \<rightharpoonup> AIAnalysis)" where
  "batchAnalyzePlaces receiver ai i [] analyses = Inr analyses"
| "batchAnalyzePlaces receiver ai i (place # rest) analyses =
     (case receiver of
        Detached \<Rightarrow> Inl TypeError
      | OnClass \<Rightarrow>
          (case analyzePlaceReviewsAs OnClass ai i place of
             Inl e \<Rightarrow> Inl e
           | Inr a \<Rightarrow>
               batchAnalyzePlaces receiver ai (Suc i) rest (analyses(placeId place \<mapsto> a))))"

text \<open>
  The state of the hook: its \<open>useState\<close> cells, the entries of the query cache under
  \<open>queryKeys.places.search(params)\<close> and \<open>queryKeys.places.detail(id)\<close> (a key holds the
  parameters themselves, and keys are compared by content), the calls made to the AI
  provider (the invocations of the two mutation functions), and the errors the two
  mutations ended with.
\<close>

datatype ProviderCall = AnalyzeReviews Place | BatchAnalyze "Place list"

record HookState =
  searchParamsState :: "PlaceSearchParams option"
  selectedPlace :: "Place option"
  enableAIAnalysis :: bool
  searchCache :: "PlaceSearchParams option \<rightharpoonup> PlaceSearchResult"
  detailCache :: "string \<rightharpoonup> Place"
  providerCalls :: "ProviderCall list"
  analysisError :: "JsError option"
  batchError :: "JsError option"

text \<open>\<open>searchResult\<close>: the data of the query observed under the key of the current parameters.\<close>

definition searchResult :: "HookState \<Rightarrow> PlaceSearchResult option" where
  "searchResult st =
     (case searchParamsState st of
        None \<Rightarrow> None
      | Some params \<Rightarrow> searchCache st (Some params))"

text \<open>
  \<open>searchPlaces\<close> of the hook, in its two halves around the \<open>await\<close>: the request sets the
  parameters and clears the selection; the response of \<open>fetchQuery\<close> for \<open>params\<close> is stored
  by the query cache under the key of those \<open>params\<close>.
\<close>

definition requestSearch :: "PlaceSearchParams \<Rightarrow> HookState \<Rightarrow> HookState" where
  "requestSearch params st = st\<lparr>searchParamsState := Some params, selectedPlace := None\<rparr>"

definition responseArrived :: "PlaceSearchParams \<Rightarrow> PlaceSearchResult \<Rightarrow> HookState \<Rightarrow> HookState" where
  "responseArrived params res st = st\<lparr>searchCache := (searchCache st)(Some params \<mapsto> res)\<rparr>"

text \<open>
  \<open>analyzeePlaceMutation\<close>. Its \<open>mutationFn\<close> is the function value
  \<open>MockOpenAIService.analyzePlaceReviews\<close>, so the call the mutation makes runs detached from
  the class. When the call succeeds, \<open>onSuccess\<close> writes the analysis into the cached detail
  of the place and into the cached search result of the current parameters; when it throws,
  the mutation ends with the error and \<open>onSuccess\<close> does not run (the mutations retry network
  errors only).
\<close>

definition setAnalysisInResult :: "string \<Rightarrow> AIAnalysis \<Rightarrow> PlaceSearchResult \<Rightarrow> PlaceSearchResult" where
  "setAnalysisInResult pid analysis oldData =
     oldData\<lparr>places := map (\<lambda>p. if placeId p = pid then p\<lparr>aiAnalysis := Some analysis\<rparr> else p)
                            (places oldData)\<rparr>"

definition analyzePlaceMutate :: "AIProvider \<Rightarrow> Place \<Rightarrow> HookState \<Rightarrow> HookState" where
  "analyzePlaceMutate ai place st =
     (let st1 = st\<lparr>providerCalls := providerCalls st @ [AnalyzeReviews place]\<rparr>
      in case analyzePlaceReviewsAs Detached ai (length (providerCalls st)) place of
           Inl e \<Rightarrow> st1\<lparr>analysisError := Some e\<rparr>
         | Inr analysis \<Rightarrow>
             st1\<lparr>analysisError := None,
                 detailCache :=
                   (case detailCache st (placeId place) of
                      None \<Rightarrow> detailCache st
                    | Some oldData \<Rightarrow>
                        (detailCache st)(placeId place \<mapsto> oldData\<lparr>aiAnalysis := Some analysis\<rparr>)),
                 searchCache :=
                   (case searchCache st (searchParamsState st) of
                      None \<Rightarrow> searchCache st
                    | Some oldData \<Rightarrow>
                        (searchCache st)(searchParamsState st \<mapsto>
                           setAnalysisInResult (placeId place) analysis oldData))\<rparr>)"

text \<open>
  \<open>selectPlace\<close>: the selected place is analysed when AI analysis is enabled and the place
  carries no analysis yet.
\<close>

definition selectPlace :: "AIProvider \<Rightarrow> Place option \<Rightarrow> HookState \<Rightarrow> HookState" where
  "selectPlace ai place st =
     (let st1 = st\<lparr>selectedPlace := place\<rparr>
      in case place of
           None \<Rightarrow> st1
         | Some p \<Rightarrow>
             if enableAIAnalysis st \<and> aiAnalysis p = None then analyzePlaceMutate ai p st1
             else st1)"

text \<open>
  \<open>batchAnalyzeMutation\<close>. Its \<open>mutationFn\<close> is the function value
  \<open>MockOpenAIService.batchAnalyzePlaces\<close>, called detached from the class with the places
  handed over. When the call succeeds, \<open>onSuccess\<close> merges by
  \<open>analyses[place.id] || place.aiAnalysis\<close> into the cached search result of the current
  parameters; when it throws, the mutation ends with the error and \<open>onSuccess\<close> does not run.
\<close>

definition mergeAnalyses :: "(string \<rightharpoonup> AIAnalysis) \<Rightarrow> PlaceSearchResult \<Rightarrow> PlaceSearchResult" where
  "mergeAnalyses analyses oldData =
     oldData\<lparr>places :=
        map (\<lambda>place. place\<lparr>aiAnalysis :=
                (case analyses (placeId place) of
                   Some a \<Rightarrow> Some a
                 | None \<Rightarrow> aiAnalysis place)\<rparr>) (places oldData)\<rparr>"

definition batchAnalyzeMutate :: "AIProvider \<Rightarrow> Place list \<Rightarrow> HookState \<Rightarrow> HookState" where
  "batchAnalyzeMutate ai ps st =
     (let st1 = st\<lparr>providerCalls := providerCalls st @ [BatchAnalyze ps]\<rparr>
      in case batchAnalyzePlaces Detached ai (length (providerCalls st)) ps Map.empty of
           Inl e \<Rightarrow> st1\<lparr>batchError := Some e\<rparr>
         | Inr analyses \<Rightarrow>
             st1\<lparr>batchError := None,
                 searchCache :=
                   (case searchCache st (searchParamsState st) of
                      None \<Rightarrow> searchCache st
                    | Some oldData \<Rightarrow>
                        (searchCache st)(searchParamsState st \<mapsto>
                           mergeAnalyses analyses oldData))\<rparr>)"

text \<open>
  The second half of the hook's \<open>searchPlaces\<close>, run when the response \<open>res\<close> of the request
  for \<open>params\<close> arrives: the query cache stores it, and the places returned are handed to the
  batch analysis when the result is not empty and AI analysis was enabled when the request
  was made (\<open>aiEnabled\<close>: the callback closes over the flag). The provider answers before the
  next event.
\<close>

definition searchPlacesResolved ::
  "AIProvider \<Rightarrow> PlaceSearchParams \<Rightarrow> bool \<Rightarrow> PlaceSearchResult \<Rightarrow> HookState \<Rightarrow> HookState" where
  "searchPlacesResolved ai params aiEnabled res st =
     (let st1 = responseArrived params res st
      in if aiEnabled \<and> length (places res) > 0
         then batchAnalyzeMutate ai (places res) st1
         else st1)"

text \<open>
  Overlapping searches as a sequence of events: a request made, and the response of an
  earlier request arriving.
\<close>

datatype SearchEvent =
  Requested PlaceSearchParams
| Responded PlaceSearchParams bool PlaceSearchResult

fun searchStep :: "AIProvider \<Rightarrow> HookState \<Rightarrow> SearchEvent \<Rightarrow> HookState" where
  "searchStep ai st (Requested params) = requestSearch params st"
| "searchStep ai st (Responded params aiEnabled res) = searchPlacesResolved ai params aiEnabled res st"

text \<open>
  \<open>searchPlaces\<close> of the hook when nothing else happens in between (and the cache holds no
  fresh entry for the parameters): the request, then the response of the places service.
\<close>

definition hookSearchPlaces ::
  "AIProvider \<Rightarrow> PlaceSearchParams \<Rightarrow> Place list \<Rightarrow> nat \<Rightarrow> HookState \<Rightarrow> HookState" where
  "hookSearchPlaces ai params allPlaces now st =
     searchPlacesResolved ai params (enableAIAnalysis st) (searchPlaces params allPlaces now)
       (requestSearch params st)"

text \<open>The classifications that the places of a result set carry.\<close>

definition classifications :: "PlaceSearchResult \<Rightarrow> PlaceClassification option list" where
  "classifications res = map (\<lambda>p. map_option classification (aiAnalysis p)) (places res)"

text \<open>
  The hook as mounted (AI analysis is on by default), a provider whose draws are all \<open>0\<close>,
  and a restaurant as \<open>generateMockRestaurants\<close> returns it: rated \<open>4.7\<close> with \<open>60\<close>
  reviews, and already carrying the analysis of its rating's bucket.
\<close>

definition mountedHook :: HookState where
  "mountedHook =
     \<lparr>searchParamsState = None, selectedPlace = None, enableAIAnalysis = True,
      searchCache = Map.empty, detailCache = Map.empty, providerCalls = [],
      analysisError = None, batchError = None\<rparr>"

definition zeroProvider :: AIProvider where
  "zeroProvider = \<lparr>generateCustomSummary = (\<lambda>place cls v. name place), random = (\<lambda>i. (0, 0))\<rparr>"

definition classifiedPlace :: Place where
  "classifiedPlace =
     (mockPlace ''restaurant_1'' 4.7 300)
       \<lparr>totalReviews := 60, aiAnalysis := Some (mockAIAnalyses (getClassificationFromRating 4.7))\<rparr>"

text \<open>
  Two searches for restaurants at different locations; the mock generator numbers the
  places of either result \<open>restaurant_1\<close>, \<open>restaurant_2\<close>, ...
\<close>

definition clujParams :: PlaceSearchParams where
  "clujParams = bucharestParams\<lparr>location := \<lparr>lat = 46.7712, lng = 23.6236\<rparr>\<rparr>"

definition clujPlace :: Place where
  "clujPlace = mockPlace ''restaurant_1'' 3.2 640"

definition clujResult :: PlaceSearchResult where
  "clujResult = searchPlaces clujParams [clujPlace] 1"

definition bucharestResult :: PlaceSearchResult where
  "bucharestResult = searchPlaces bucharestParams [classifiedPlace] 2"

chapter \<open>Properties\<close>

section \<open>Classification buckets\<close>

lemma getClassificationFromMetrics_adjusted:
  "getClassificationFromMetrics r n = getClassificationFromRating (adjustedRating r n)"
  by (simp add: getClassificationFromMetrics_def getClassificationFromRating_def)

lemma adjustedRating_many_reviews: "100 \<le> n \<Longrightarrow> adjustedRating r n = r"
  by (simp add: adjustedRating_def confidenceMultiplier_def min_def)

text \<open>
  C5 (counterexample). The enricher classifies from the adjusted rating: a place rated
  \<open>4.6\<close> with \<open>50\<close> reviews is \<open>good\<close>, not \<open>excellent\<close>.
\<close>

theorem enricher_bucket_counterexample:
  "getClassificationFromMetrics 4.6 50 = GOOD \<and> getClassificationFromRating 4.6 = EXCELLENT"
  by (simp add: getClassificationFromMetrics_def getClassificationFromRating_def
      adjustedRating_def confidenceMultiplier_def)

text \<open>
  C5 (amended). The utility \<open>getClassificationFromRating\<close> buckets a rating as stated:
  excellent from \<open>4.5\<close>, very good from \<open>4.0\<close>, good from \<open>3.5\<close>, average from \<open>3.0\<close>, poor
  below. The enricher's \<open>getClassificationFromMetrics\<close> applies the same thresholds to the
  adjusted rating \<open>rating * (0.7 + 0.3 * min (reviewCount / 100) 1)\<close>, which is the rating
  itself from \<open>100\<close> reviews on, so that there the enricher's bucket is the stated one.
\<close>

theorem classification_buckets:
  "(4.5 \<le> r \<longrightarrow> getClassificationFromRating r = EXCELLENT)
   \<and> (4.0 \<le> r \<and> r < 4.5 \<longrightarrow> getClassificationFromRating r = VERY_GOOD)
   \<and> (3.5 \<le> r \<and> r < 4.0 \<longrightarrow> getClassificationFromRating r = GOOD)
   \<and> (3.0 \<le> r \<and> r < 3.5 \<longrightarrow> getClassificationFromRating r = AVERAGE)
   \<and> (r < 3.0 \<longrightarrow> getClassificationFromRating r = POOR)
   \<and> getClassificationFromMetrics r n
       = getClassificationFromRating (r * (0.7 + 0.3 * min (real n / 100) 1))
   \<and> (100 \<le> n \<longrightarrow> getClassificationFromMetrics r n = getClassificationFromRating r)"
proof -
  have buckets:
    "(4.5 \<le> r \<longrightarrow> getClassificationFromRating r = EXCELLENT)
     \<and> (4.0 \<le> r \<and> r < 4.5 \<longrightarrow> getClassificationFromRating r = VERY_GOOD)
     \<and> (3.5 \<le> r \<and> r < 4.0 \<longrightarrow> getClassificationFromRating r = GOOD)
     \<and> (3.0 \<le> r \<and> r < 3.5 \<longrightarrow> getClassificationFromRating r = AVERAGE)
     \<and> (r < 3.0 \<longrightarrow> getClassificationFromRating r = POOR)"
    by (simp add: getClassificationFromRating_def)
  have adj: "getClassificationFromMetrics r n
       = getClassificationFromRating (r * (0.7 + 0.3 * min (real n / 100) 1))"
    using getClassificationFromMetrics_adjusted[of r n]
    by (simp add: adjustedRating_def confidenceMultiplier_def)
  have many: "100 \<le> n \<longrightarrow> getClassificationFromMetrics r n = getClassificationFromRating r"
    by (simp add: getClassificationFromMetrics_adjusted adjustedRating_many_reviews)
  from buckets adj many show ?thesis by blast
qed

theorem classification_buckets_witness:
  "getClassificationFromRating 4.7 = EXCELLENT
   \<and> getClassificationFromMetrics 4.7 250 = EXCELLENT
   \<and> getClassificationFromRating 4.2 = VERY_GOOD
   \<and> getClassificationFromMetrics 4.2 100 = VERY_GOOD
   \<and> getClassificationFromRating 3.7 = GOOD
   \<and> getClassificationFromRating 3.1 = AVERAGE
   \<and> getClassificationFromRating 2.9 = POOR"
  using classification_buckets[of "4.7" 250] classification_buckets[of "4.2" 100]
    classification_buckets[of "3.7" 0] classification_buckets[of "3.1" 0]
    classification_buckets[of "2.9" 0]
  by simp

section \<open>Search: order, length and count\<close>

lemma byRatingThenDistance_le_iff:
  "byRatingThenDistance a b \<le> 0 \<longleftrightarrow> spec_rankedBefore a b"
  by (auto simp: byRatingThenDistance_def spec_rankedBefore_def Let_def abs_minus_commute)

lemma spec_rankedBefore_total: "spec_rankedBefore a b \<or> spec_rankedBefore b a"
  by (auto simp: spec_rankedBefore_def abs_minus_commute)













text \<open>
  The three ratings admit no order at all: each place is to come before the next, and the
  last before the first. Whatever \<open>sort\<close> returns for them breaks the stated rule.
\<close>

lemma cycle_relations:
  "\<not> spec_rankedBefore cycB cycA" "\<not> spec_rankedBefore cycC cycB" "\<not> spec_rankedBefore cycA cycC"
  by (simp_all add: spec_rankedBefore_def cycA_def cycB_def cycC_def mockPlace_def orZero_def
      double_4_4_def double_4_6_def)

lemma cycle_distinct: "cycA \<noteq> cycB" "cycB \<noteq> cycC" "cycA \<noteq> cycC"
  by (simp_all add: cycA_def cycB_def cycC_def mockPlace_def)

lemma sorted_wrt_index_order:
  assumes "sorted_wrt P ps" "i < length ps" "j < length ps" "\<not> P (ps ! j) (ps ! i)" "ps ! i \<noteq> ps ! j"
  shows "i < j"
proof (rule ccontr)
  assume "\<not> i < j"
  with assms(5) have "j < i" by (cases "i = j") auto
  with assms(1,2) have "P (ps ! j) (ps ! i)" by (simp add: sorted_wrt_iff_nth_less)
  with assms(4) show False by simp
qed

lemma no_order_for_cycle:
  "\<not> (\<exists>ps. mset ps = mset [cycA, cycB, cycC] \<and> sorted_wrt spec_rankedBefore ps)"
proof
  assume "\<exists>ps. mset ps = mset [cycA, cycB, cycC] \<and> sorted_wrt spec_rankedBefore ps"
  then obtain ps where m: "mset ps = mset [cycA, cycB, cycC]"
    and s: "sorted_wrt spec_rankedBefore ps" by blast
  from m have e: "set ps = set [cycA, cycB, cycC]" by (rule mset_eq_setD)
  have "cycA \<in> set ps" unfolding e by simp
  then obtain i where i: "i < length ps" "ps ! i = cycA" unfolding in_set_conv_nth by blast
  have "cycB \<in> set ps" unfolding e by simp
  then obtain j where j: "j < length ps" "ps ! j = cycB" unfolding in_set_conv_nth by blast
  have "cycC \<in> set ps" unfolding e by simp
  then obtain k where k: "k < length ps" "ps ! k = cycC" unfolding in_set_conv_nth by blast
  have "i < j"
    by (rule sorted_wrt_index_order[OF s i(1) j(1)]) (simp_all only: i j cycle_relations cycle_distinct not_False_eq_True)
  moreover have "j < k"
    by (rule sorted_wrt_index_order[OF s j(1) k(1)]) (simp_all only: j k cycle_relations cycle_distinct not_False_eq_True)
  moreover have "k < i"
    by (rule sorted_wrt_index_order[OF s k(1) i(1)])
       (simp_all only: i k cycle_relations cycle_distinct[symmetric] not_False_eq_True)
  ultimately show False by simp
qed

text \<open>
  Neighbours in the result always respect the rule, inserted as they are one next to the
  other; it is places further apart that may not.
\<close>

lemma successively_insertBy:
  "successively spec_rankedBefore ys \<Longrightarrow>
     successively spec_rankedBefore (insertBy byRatingThenDistance x ys)"
proof (induction ys)
  case Nil
  then show ?case by simp
next
  case (Cons y ys)
  show ?case
  proof (cases "spec_rankedBefore x y")
    case True
    with Cons.prems show ?thesis
      by (simp add: byRatingThenDistance_le_iff)
  next
    case False
    then have yx: "spec_rankedBefore y x" using spec_rankedBefore_total by blast
    show ?thesis
    proof (cases ys)
      case Nil
      with False yx show ?thesis by (simp add: byRatingThenDistance_le_iff)
    next
      case (Cons z zs)
      with Cons.prems have yz: "spec_rankedBefore y z"
        and tl: "successively spec_rankedBefore ys" by simp_all
      from Cons.IH[OF tl] have ih: "successively spec_rankedBefore (insertBy byRatingThenDistance x ys)" .
      from False yx yz ih Cons show ?thesis
        by (simp add: byRatingThenDistance_le_iff split: if_splits)
    qed
  qed
qed

lemma successively_arraySort:
  "successively spec_rankedBefore (arraySort byRatingThenDistance xs)"
  by (induction xs) (simp_all add: arraySort_def successively_insertBy)

lemma successively_take: "successively P xs \<Longrightarrow> successively P (take n xs)"
  by (auto simp: successively_conv_nth)

lemma searchPlaces_neighbours_ranked:
  "successively spec_rankedBefore (places (searchPlaces params allPlaces now))"
  by (simp add: searchPlaces_def Let_def successively_arraySort successively_take)

section \<open>Navigation invariant\<close>

lemmas nav_eval = navInvariant_def navigationMode_def destinationId_def parseDestination_def
  parseNavigationMode_def startNavigation_def stopNavigation_def setNavigationMode_def
  setDestinationId_def emptyUrl_def

lemma navInvariant_startNavigation:
  "m \<noteq> Mode_none \<Longrightarrow> pid \<noteq> [] \<Longrightarrow> navInvariant (startNavigation pid m u)"
  by (cases m) (simp_all add: nav_eval)

lemma navInvariant_stopNavigation: "navInvariant (stopNavigation u)"
  by (simp add: nav_eval)

text \<open>
  C2 (amended). In every state reached from the empty URL, or from a URL holding a mode
  \<open>static\<close> or \<open>live\<close> together with a destination, through \<open>startNavigation\<close> with a
  non-empty place id and a mode other than \<open>none\<close> and through \<open>stopNavigation\<close>, the
  destination is set iff the mode is not \<open>none\<close>.
\<close>

theorem navigated_invariant: "navigated u \<Longrightarrow> navInvariant u"
proof (induction rule: navigated.induct)
  case fresh
  show ?case by (simp add: nav_eval)
next
  case (restored v d)
  then show ?case by (auto simp: nav_eval)
next
  case (started u m pid)
  then show ?case by (simp add: navInvariant_startNavigation)
next
  case (stopped u)
  show ?case by (rule navInvariant_stopNavigation)
qed

theorem navigated_invariant_witness:
  "navigated (startNavigation ''restaurant_2'' Mode_static
                (startNavigation ''restaurant_1'' Mode_live emptyUrl))
   \<and> navInvariant (startNavigation ''restaurant_2'' Mode_static
                (startNavigation ''restaurant_1'' Mode_live emptyUrl))
   \<and> navigationMode (startNavigation ''restaurant_2'' Mode_static
                (startNavigation ''restaurant_1'' Mode_live emptyUrl)) = Mode_static
   \<and> navigated (stopNavigation (startNavigation ''restaurant_1'' Mode_live emptyUrl))
   \<and> navInvariant (stopNavigation (startNavigation ''restaurant_1'' Mode_live emptyUrl))"
proof -
  have a: "navigated (startNavigation ''restaurant_1'' Mode_live emptyUrl)"
    by (rule navigated.started[OF navigated.fresh]) simp_all
  have b: "navigated (startNavigation ''restaurant_2'' Mode_static
                (startNavigation ''restaurant_1'' Mode_live emptyUrl))"
    by (rule navigated.started[OF a]) simp_all
  have c: "navigated (stopNavigation (startNavigation ''restaurant_1'' Mode_live emptyUrl))"
    by (rule navigated.stopped[OF a])
  have m: "navigationMode (startNavigation ''restaurant_2'' Mode_static
                (startNavigation ''restaurant_1'' Mode_live emptyUrl)) = Mode_static"
    by (simp add: nav_eval)
  from navigated_invariant[OF b] navigated_invariant[OF c] a b c m show ?thesis by blast
qed

text \<open>
  C2 (counterexample). \<open>setNavigationMode\<close> writes the mode alone, \<open>startNavigation\<close> accepts
  the mode \<open>none\<close>, and the two URL parameters are parsed independently of each other: each
  gives a state with a mode and no destination, or a destination and no mode.
\<close>

theorem navigation_invariant_counterexample:
  "apiReachable (setNavigationMode Mode_live emptyUrl)
   \<and> \<not> navInvariant (setNavigationMode Mode_live emptyUrl)
   \<and> apiReachable (startNavigation ''restaurant_1'' Mode_none emptyUrl)
   \<and> \<not> navInvariant (startNavigation ''restaurant_1'' Mode_none emptyUrl)
   \<and> apiReachable \<lparr>navParam = Some ''static'', destinationParam = None\<rparr>
   \<and> \<not> navInvariant \<lparr>navParam = Some ''static'', destinationParam = None\<rparr>"
proof -
  have e: "apiReachable emptyUrl" unfolding emptyUrl_def by (rule apiReachable.fromUrl)
  have 1: "apiReachable (setNavigationMode Mode_live emptyUrl)"
    by (rule apiReachable.bySetMode[OF e])
  have 2: "apiReachable (startNavigation ''restaurant_1'' Mode_none emptyUrl)"
    by (rule apiReachable.byStart[OF e])
  have 3: "apiReachable \<lparr>navParam = Some ''static'', destinationParam = None\<rparr>"
    by (rule apiReachable.fromUrl)
  have n: "\<not> navInvariant (setNavigationMode Mode_live emptyUrl)"
    "\<not> navInvariant (startNavigation ''restaurant_1'' Mode_none emptyUrl)"
    "\<not> navInvariant \<lparr>navParam = Some ''static'', destinationParam = None\<rparr>"
    by (simp_all add: nav_eval)
  from 1 2 3 n show ?thesis by blast
qed

section \<open>Filters\<close>

lemma filteredPlaces_clauses:
  "filteredPlaces (Some res) filters
     = filter (\<lambda>place. ratingClause filters place \<and> priceLevelClause filters place
                       \<and> distanceClause filters place) (places res)"
proof -
  have r: "(case filterRating filters of
              None \<Rightarrow> ps
            | Some r \<Rightarrow> filter (\<lambda>place. rating place \<ge> ratingMin r \<and> rating place \<le> ratingMax r) ps)
           = filter (ratingClause filters) ps" for ps
    by (auto simp: ratingClause_def split: option.splits intro: filter_cong)
  have p: "(case filterPriceLevel filters of
              None \<Rightarrow> ps
            | Some levels \<Rightarrow>
                if length levels > 0
                then filter (\<lambda>place. case priceLevel place of
                                        None \<Rightarrow> False
                                      | Some l \<Rightarrow> l \<noteq> 0 \<and> l \<in> set levels) ps
                else ps)
           = filter (priceLevelClause filters) ps" for ps
    by (auto simp: priceLevelClause_def split: option.splits intro!: filter_cong)
  have d: "(case filterDistance filters of
              None \<Rightarrow> ps
            | Some d \<Rightarrow>
                if distanceMax d \<noteq> 0
                then filter (\<lambda>place. case distance place of
                                        None \<Rightarrow> True
                                      | Some x \<Rightarrow> x = 0 \<or> x \<le> distanceMax d * 1000) ps
                else ps)
           = filter (distanceClause filters) ps" for ps
    by (auto simp: distanceClause_def Let_def split: option.splits intro!: filter_cong)
  show ?thesis
    unfolding filteredPlaces_def Let_def option.case r p d
    by (simp add: conj_commute conj_left_commute)
qed

text \<open>
  C3 (amended). The view is the fetched sequence narrowed, in its order, to the places
  that satisfy every active clause: the rating within \<open>[min, max]\<close> when a rating filter is
  given; a price level (present and not \<open>0\<close>) in the price set when that set is given and not
  empty; and, when a maximum distance other than \<open>0\<close> is given, a distance that is absent,
  \<open>0\<close> or at most \<open>max * 1000\<close> metres. The fetched set is an argument that the function
  only reads. The rating filter \<open>{min: 4, max: 5}\<close> on places rated \<open>3.2, 4.1, 4.9, 5.0\<close>
  yields the places rated \<open>4.1, 4.9, 5.0\<close> in that order.
\<close>

theorem filteredPlaces_and_composition:
  "filteredPlaces (Some res) filters
     = filter (\<lambda>place. ratingClause filters place \<and> priceLevelClause filters place
                       \<and> distanceClause filters place) (places res)
   \<and> (place \<in> set (filteredPlaces (Some res) filters) \<longleftrightarrow>
        place \<in> set (places res) \<and> ratingClause filters place
        \<and> priceLevelClause filters place \<and> distanceClause filters place)
   \<and> filteredPlaces None filters = []"
  by (simp add: filteredPlaces_clauses) (simp add: filteredPlaces_def)

lemmas filter_eval = ratingClause_def priceLevelClause_def distanceClause_def noFilters_def
  resetFilters_def fetchedFour_def mockPlace_def

theorem filteredPlaces_rating_example:
  "filteredPlaces (Some fetchedFour) (noFilters\<lparr>filterRating := Some \<lparr>ratingMin = 4, ratingMax = 5\<rparr>\<rparr>)
     = [mockPlace ''restaurant_2'' 4.1 500, mockPlace ''restaurant_3'' 4.9 500,
        mockPlace ''restaurant_4'' 5.0 500]
   \<and> places fetchedFour
     = [mockPlace ''restaurant_1'' 3.2 500, mockPlace ''restaurant_2'' 4.1 500,
        mockPlace ''restaurant_3'' 4.9 500, mockPlace ''restaurant_4'' 5.0 500]"
  using filteredPlaces_and_composition[of fetchedFour
      "noFilters\<lparr>filterRating := Some \<lparr>ratingMin = 4, ratingMax = 5\<rparr>\<rparr>"]
  by (simp add: filter_eval)

text \<open>
  C3 (counterexample). With the filters as reset and the distance slider at \<open>0\<close> km, a
  place at \<open>500\<close> metres stays in the view, though its distance is not at most
  \<open>0 * 1000\<close> metres.
\<close>

theorem filter_rule_counterexample:
  "mockPlace ''restaurant_2'' 4.1 500
     \<in> set (filteredPlaces (Some fetchedFour) (resetFilters\<lparr>filterDistance := Some \<lparr>distanceMax = 0\<rparr>\<rparr>))
   \<and> \<not> spec_keeps \<lparr>ratingMin = 0, ratingMax = 5\<rparr> [] \<lparr>distanceMax = 0\<rparr>
          (mockPlace ''restaurant_2'' 4.1 500)"
  by (simp add: filteredPlaces_clauses filter_eval spec_keeps_def)

text \<open>
  C10. A place whose distance is absent or \<open>0\<close> passes the distance clause whatever the
  configured maximum: it is in the view exactly when it is in the view computed without a
  distance filter. The maximum is compared with the distance of a place only when that
  distance is present and positive.
\<close>

theorem distance_clause_passes_unknown_distance:
  "(distance place = None \<or> distance place = Some 0 \<longrightarrow>
      distanceClause filters place
      \<and> (place \<in> set (filteredPlaces (Some res) filters) \<longleftrightarrow>
           place \<in> set (filteredPlaces (Some res) (filters\<lparr>filterDistance := None\<rparr>))))
   \<and> (distance place = Some x \<and> 0 < x \<and> filterDistance filters = Some d \<and> distanceMax d \<noteq> 0 \<longrightarrow>
        (distanceClause filters place \<longleftrightarrow> x \<le> distanceMax d * 1000))"
proof -
  have n: "distanceClause (filters\<lparr>filterDistance := None\<rparr>) place"
    by (simp add: distanceClause_def)
  have same: "ratingClause (filters\<lparr>filterDistance := None\<rparr>) place = ratingClause filters place"
    "priceLevelClause (filters\<lparr>filterDistance := None\<rparr>) place = priceLevelClause filters place"
    by (simp_all add: ratingClause_def priceLevelClause_def)
  have a: "distanceClause filters place
      \<and> (place \<in> set (filteredPlaces (Some res) filters) \<longleftrightarrow>
           place \<in> set (filteredPlaces (Some res) (filters\<lparr>filterDistance := None\<rparr>)))"
    if "distance place = None \<or> distance place = Some 0"
  proof -
    have d: "distanceClause filters place"
      using that by (auto simp: distanceClause_def split: option.splits)
    with n same show ?thesis by (simp add: filteredPlaces_clauses)
  qed
  have b: "distanceClause filters place \<longleftrightarrow> x \<le> distanceMax d * 1000"
    if "distance place = Some x \<and> 0 < x \<and> filterDistance filters = Some d \<and> distanceMax d \<noteq> 0"
    using that by (simp add: distanceClause_def)
  from a b show ?thesis by blast
qed

theorem distance_clause_witness:
  "filteredPlaces (Some (fetchedFour\<lparr>places := [unlocatedPlace, mockPlace ''restaurant_6'' 4.0 0,
        mockPlace ''restaurant_7'' 4.0 1500]\<rparr>)) (resetFilters\<lparr>filterDistance := Some \<lparr>distanceMax = 1\<rparr>\<rparr>)
     = [unlocatedPlace, mockPlace ''restaurant_6'' 4.0 0]
   \<and> distanceClause (resetFilters\<lparr>filterDistance := Some \<lparr>distanceMax = 1\<rparr>\<rparr>) unlocatedPlace
   \<and> distanceClause (resetFilters\<lparr>filterDistance := Some \<lparr>distanceMax = 1\<rparr>\<rparr>)
        (mockPlace ''restaurant_6'' 4.0 0)
   \<and> \<not> distanceClause (resetFilters\<lparr>filterDistance := Some \<lparr>distanceMax = 1\<rparr>\<rparr>)
        (mockPlace ''restaurant_7'' 4.0 1500)"
  using distance_clause_passes_unknown_distance[where place = unlocatedPlace
          and filters = "resetFilters\<lparr>filterDistance := Some \<lparr>distanceMax = 1\<rparr>\<rparr>"
          and res = "fetchedFour\<lparr>places := [unlocatedPlace, mockPlace ''restaurant_6'' 4.0 0,
              mockPlace ''restaurant_7'' 4.0 1500]\<rparr>"]
        distance_clause_passes_unknown_distance[where place = "mockPlace ''restaurant_6'' 4.0 0"
          and filters = "resetFilters\<lparr>filterDistance := Some \<lparr>distanceMax = 1\<rparr>\<rparr>"
          and res = "fetchedFour\<lparr>places := [unlocatedPlace, mockPlace ''restaurant_6'' 4.0 0,
              mockPlace ''restaurant_7'' 4.0 1500]\<rparr>"]
        distance_clause_passes_unknown_distance[where place = "mockPlace ''restaurant_7'' 4.0 1500"
          and filters = "resetFilters\<lparr>filterDistance := Some \<lparr>distanceMax = 1\<rparr>\<rparr>"
          and x = 1500 and d = "\<lparr>distanceMax = 1\<rparr>"]
  by (simp add: filteredPlaces_clauses filter_eval unlocatedPlace_def)

section \<open>Confidence of an analysis\<close>

lemma confidence_analyzePlaceReviews:
  "confidence (analyzePlaceReviews tbl gen place u v) = u * 0.2 + 0.8"
  by (simp add: analyzePlaceReviews_def Let_def)

lemma confidenceMultiplier_mono: "n1 \<le> n2 \<Longrightarrow> confidenceMultiplier n1 \<le> confidenceMultiplier n2"
  by (simp add: confidenceMultiplier_def min_def divide_right_mono)

text \<open>
  C6 (amended). The confidence of an analysis is \<open>0.8 + 0.2 * u\<close> for the random draw \<open>u\<close>
  of the call, within \<open>[0.8, 1)\<close>, whatever the review count: of two places that differ
  only in their review count, the one with more reviews gets no lower confidence when its
  draw is no smaller. What grows with the review count is the confidence multiplier
  \<open>min (reviewCount / 100) 1\<close> and, for a rating that is not negative, the adjusted rating
  that decides the classification.
\<close>

theorem confidence_follows_the_draw:
  "confidence (analyzePlaceReviews tbl gen (place\<lparr>totalReviews := n\<rparr>) u v) = u * 0.2 + 0.8
   \<and> (0 \<le> u \<and> u < 1 \<longrightarrow>
        0.8 \<le> confidence (analyzePlaceReviews tbl gen (place\<lparr>totalReviews := n\<rparr>) u v)
        \<and> confidence (analyzePlaceReviews tbl gen (place\<lparr>totalReviews := n\<rparr>) u v) < 1)
   \<and> (u1 \<le> u2 \<longrightarrow>
        confidence (analyzePlaceReviews tbl gen (place\<lparr>totalReviews := n1\<rparr>) u1 v1)
        \<le> confidence (analyzePlaceReviews tbl gen (place\<lparr>totalReviews := n2\<rparr>) u2 v2))
   \<and> (n1 \<le> n2 \<longrightarrow> confidenceMultiplier n1 \<le> confidenceMultiplier n2)
   \<and> (n1 \<le> n2 \<and> 0 \<le> rating place \<longrightarrow>
        adjustedRating (rating place) n1 \<le> adjustedRating (rating place) n2)"
proof -
  have adj: "adjustedRating (rating place) n1 \<le> adjustedRating (rating place) n2"
    if "n1 \<le> n2" "0 \<le> rating place"
  proof -
    have "0.7 + 0.3 * confidenceMultiplier n1 \<le> 0.7 + 0.3 * confidenceMultiplier n2"
      using confidenceMultiplier_mono[OF that(1)] by simp
    then show ?thesis
      unfolding adjustedRating_def using that(2) by (rule mult_left_mono)
  qed
  show ?thesis
    using adj by (simp add: confidence_analyzePlaceReviews confidenceMultiplier_mono)
qed

theorem confidence_follows_the_draw_witness:
  "confidence (analyzePlaceReviews mockAIAnalyses (\<lambda>p c v. name p)
       (classifiedPlace\<lparr>totalReviews := 60\<rparr>) 0.25 0) = 0.85
   \<and> confidence (analyzePlaceReviews mockAIAnalyses (\<lambda>p c v. name p)
       (classifiedPlace\<lparr>totalReviews := 400\<rparr>) 0.5 0) = 0.9
   \<and> confidenceMultiplier 60 \<le> confidenceMultiplier 400
   \<and> adjustedRating (rating classifiedPlace) 60 \<le> adjustedRating (rating classifiedPlace) 400"
proof -
  have r: "0 \<le> rating classifiedPlace" by (simp add: classifiedPlace_def mockPlace_def)
  from confidence_follows_the_draw[where tbl = mockAIAnalyses and gen = "\<lambda>p c v. name p"
        and place = classifiedPlace and n = 60 and u = "0.25" and v = 0
        and ?u1.0 = "0.25" and ?u2.0 = "0.5" and ?n1.0 = 60 and ?n2.0 = 400 and ?v1.0 = 0 and ?v2.0 = 0]
       confidence_follows_the_draw[where tbl = mockAIAnalyses and gen = "\<lambda>p c v. name p"
        and place = classifiedPlace and n = 400 and u = "0.5" and v = 0
        and ?u1.0 = "0.25" and ?u2.0 = "0.5" and ?n1.0 = 60 and ?n2.0 = 400 and ?v1.0 = 0 and ?v2.0 = 0] r
  show ?thesis by simp
qed

text \<open>
  C6 (counterexample). The same restaurant with \<open>60\<close> and with \<open>400\<close> reviews, analysed
  with the draws \<open>0.9\<close> and \<open>0.1\<close>: the confidence is \<open>0.98\<close> for the fewer reviews and
  \<open>0.82\<close> for the more.
\<close>

theorem confidence_monotone_counterexample:
  "confidence (analyzePlaceReviews mockAIAnalyses (\<lambda>p c v. name p)
       (classifiedPlace\<lparr>totalReviews := 60\<rparr>) 0.9 0)
   > confidence (analyzePlaceReviews mockAIAnalyses (\<lambda>p c v. name p)
       (classifiedPlace\<lparr>totalReviews := 400\<rparr>) 0.1 0)"
  by (simp add: confidence_analyzePlaceReviews)

section \<open>Navigation and the location watch\<close>

lemmas map_eval = handleStaticRoute_def handleLiveNavigation_def handleStopNavigation_def
  rerender_def navigationEffect_def currentDestination_def calculateRoute_def
  startRealTimeNavigation_def clearLocationWatch_def mountedMap_def bucharestMap_def
  placeX_def placeY_def mockPlace_def Let_def

text \<open>
  C8 (the code at the failing input). Live navigation to \<open>X\<close>, then static navigation to
  \<open>Y\<close>: the mode is \<open>static\<close> and the destination \<open>Y\<close>, and the watch opened for the live
  tracking of \<open>X\<close> is still registered, its id still in the ref.
\<close>

theorem live_then_static_leaves_watch_open:
  "navigationMode (url (handleStaticRoute bucharestMap placeY
        (handleLiveNavigation bucharestMap placeX mountedMap))) = Mode_static
   \<and> destinationId (url (handleStaticRoute bucharestMap placeY
        (handleLiveNavigation bucharestMap placeX mountedMap))) = Some (placeId placeY)
   \<and> openWatches (handleLiveNavigation bucharestMap placeX mountedMap) = [1]
   \<and> openWatches (handleStaticRoute bucharestMap placeY
        (handleLiveNavigation bucharestMap placeX mountedMap)) = [1]
   \<and> locationWatchIdRef (handleStaticRoute bucharestMap placeY
        (handleLiveNavigation bucharestMap placeX mountedMap)) = Some 1"
  by (simp add: map_eval nav_eval)

text \<open>The sibling path: stopping the live navigation releases the watch.\<close>

lemma stop_releases_watch:
  "openWatches (handleStopNavigation bucharestMap
        (handleLiveNavigation bucharestMap placeX mountedMap)) = []
   \<and> locationWatchIdRef (handleStopNavigation bucharestMap
        (handleLiveNavigation bucharestMap placeX mountedMap)) = None"
  by (simp add: map_eval nav_eval)

text \<open>Whatever the state, the handler of the static route closes no watch.\<close>

lemma navigationMode_startNavigation:
  "navigationMode (startNavigation pid m u) = m"
  by (cases m) (simp_all add: nav_eval)

lemma handleStaticRoute_keeps_watches:
  "openWatches (handleStaticRoute props place s) = openWatches s
   \<and> locationWatchIdRef (handleStaticRoute props place s) = locationWatchIdRef s"
  by (simp add: handleStaticRoute_def rerender_def navigationEffect_def calculateRoute_def
      navigationMode_startNavigation Let_def)

section \<open>Overlapping searches\<close>

lemma batchAnalyzePlaces_detached:
  "ps \<noteq> [] \<Longrightarrow> batchAnalyzePlaces Detached ai i ps analyses = Inl TypeError"
  by (cases ps) simp_all

lemma searchResult_responseArrived_other:
  "searchParamsState st = Some current \<Longrightarrow> params \<noteq> current \<Longrightarrow>
     searchResult (responseArrived params res st) = searchResult st"
  by (simp add: searchResult_def responseArrived_def)

text \<open>A batch of places leaves the query cache as it is: the detached call throws.\<close>

lemma batchAnalyzeMutate_nonempty:
  "ps \<noteq> [] \<Longrightarrow>
     batchAnalyzeMutate ai ps st
       = st\<lparr>providerCalls := providerCalls st @ [BatchAnalyze ps], batchError := Some TypeError\<rparr>"
  by (simp add: batchAnalyzeMutate_def Let_def batchAnalyzePlaces_detached)

lemma searchResult_batchAnalyzeMutate:
  "ps \<noteq> [] \<Longrightarrow> searchResult (batchAnalyzeMutate ai ps st) = searchResult st"
  by (simp add: batchAnalyzeMutate_nonempty searchResult_def split: option.splits)

lemma searchResult_searchPlacesResolved:
  "searchResult (searchPlacesResolved ai params aiEnabled res st)
     = searchResult (responseArrived params res st)"
  by (simp add: searchPlacesResolved_def Let_def searchResult_batchAnalyzeMutate)

lemma searchCache_searchPlacesResolved:
  "searchCache (searchPlacesResolved ai params aiEnabled res st)
     = (searchCache st)(Some params \<mapsto> res)"
  by (simp add: searchPlacesResolved_def Let_def batchAnalyzeMutate_nonempty responseArrived_def)

text \<open>
  C9. When the second request supersedes the first (changed category or location) and its
  result is committed, the response of the first arriving late is stored under its own
  parameters, and the result set on display stays the one the newer request committed,
  whether or not AI analysis was enabled for either request.
\<close>

theorem stale_response_does_not_overwrite:
  assumes differ: "placeType superseded \<noteq> placeType newer \<or> location superseded \<noteq> location newer"
    and current: "searchParamsState st = Some newer"
    and committed: "searchCache st (Some newer) = Some res"
  shows "searchResult (searchStep ai st (Responded superseded aiEnabled late)) = Some res
       \<and> searchCache (searchStep ai st (Responded superseded aiEnabled late)) (Some newer) = Some res
       \<and> searchCache (searchStep ai st (Responded superseded aiEnabled late)) (Some superseded)
          = Some late"
proof -
  from differ have ne: "superseded \<noteq> newer" by auto
  have before: "searchResult st = Some res"
    using current committed by (simp add: searchResult_def)
  have shown: "searchResult (searchStep ai st (Responded superseded aiEnabled late)) = Some res"
    using searchResult_responseArrived_other[OF current ne, of late] before
    by (simp add: searchResult_searchPlacesResolved)
  have kept: "searchCache (searchStep ai st (Responded superseded aiEnabled late)) (Some newer)
              = Some res"
    using ne committed by (simp add: searchCache_searchPlacesResolved)
  have own: "searchCache (searchStep ai st (Responded superseded aiEnabled late)) (Some superseded)
             = Some late"
    by (simp add: searchCache_searchPlacesResolved)
  from shown kept own show ?thesis by simp
qed

lemmas hook_eval = searchResult_def responseArrived_def requestSearch_def mountedHook_def
  searchPlacesResolved_def

lemma eval_searchPlaces_single:
  "searchPlaces params [p] now
     = \<lparr>places = (if (case minRating params of None \<Rightarrow> True | Some r \<Rightarrow> r = 0 \<or> r \<le> rating p)
                    \<and> (case keyword params of None \<Rightarrow> True
                        | Some w \<Rightarrow> w = [] \<or> stringIncludes (toLowerCase (name p)) (toLowerCase w)
                                   \<or> stringIncludes (toLowerCase (address p)) (toLowerCase w))
                  then [p] else []),
        totalFound = (if (case minRating params of None \<Rightarrow> True | Some r \<Rightarrow> r = 0 \<or> r \<le> rating p)
                    \<and> (case keyword params of None \<Rightarrow> True
                        | Some w \<Rightarrow> w = [] \<or> stringIncludes (toLowerCase (name p)) (toLowerCase w)
                                   \<or> stringIncludes (toLowerCase (address p)) (toLowerCase w))
                  then 1 else 0),
        searchParams = params, searchTime = now, nextPageToken = None\<rparr>"
  by (auto simp: searchPlaces_def filteredCandidates_def applyKeyword_def applyMinRating_def
      arraySort_def Let_def split: option.splits)

lemma places_bucharestResult: "places bucharestResult = [classifiedPlace]"
  by (simp add: bucharestResult_def eval_searchPlaces_single bucharestParams_def)

lemma places_clujResult: "places clujResult = [clujPlace]"
  by (simp add: clujResult_def eval_searchPlaces_single clujParams_def bucharestParams_def)

lemma params_differ: "clujParams \<noteq> bucharestParams" "location clujParams \<noteq> location bucharestParams"
  by (simp_all add: clujParams_def bucharestParams_def)

theorem stale_response_witness:
  "location clujParams \<noteq> location bucharestParams
   \<and> searchResult (foldl (searchStep zeroProvider) mountedHook
        [Requested clujParams, Requested bucharestParams,
         Responded bucharestParams True bucharestResult])
      = Some bucharestResult
   \<and> searchResult (foldl (searchStep zeroProvider) mountedHook
        [Requested clujParams, Requested bucharestParams,
         Responded bucharestParams True bucharestResult,
         Responded clujParams True clujResult])
      = Some bucharestResult"
proof -
  let ?st = "foldl (searchStep zeroProvider) mountedHook
        [Requested clujParams, Requested bucharestParams,
         Responded bucharestParams True bucharestResult]"
  have d: "placeType clujParams \<noteq> placeType bucharestParams
           \<or> location clujParams \<noteq> location bucharestParams"
    using params_differ by simp
  have c: "searchParamsState ?st = Some bucharestParams"
    by (simp add: hook_eval places_bucharestResult batchAnalyzeMutate_nonempty)
  have r: "searchCache ?st (Some bucharestParams) = Some bucharestResult"
    by (simp add: hook_eval places_bucharestResult batchAnalyzeMutate_nonempty)
  have b: "searchResult ?st = Some bucharestResult"
    using c r by (simp add: searchResult_def)
  have a: "searchResult (searchStep zeroProvider ?st (Responded clujParams True clujResult))
           = Some bucharestResult"
    using stale_response_does_not_overwrite[OF d c r, of zeroProvider True clujResult] by blast
  from a b params_differ(2) show ?thesis by simp
qed

section \<open>Classifying a place that is classified already\<close>

lemma selectPlace_skips_classified:
  "aiAnalysis p \<noteq> None \<Longrightarrow> selectPlace ai (Some p) st = st\<lparr>selectedPlace := Some p\<rparr>"
  by (auto simp: selectPlace_def Let_def)

lemma classifiedPlace_analysis:
  "aiAnalysis classifiedPlace = Some (mockAIAnalyses EXCELLENT)"
  by (simp add: classifiedPlace_def getClassificationFromRating_def)

text \<open>
  With AI analysis enabled, a search that returns places makes one batch call to the
  provider, carrying every place returned, analysed already or not.
\<close>

lemma search_calls_provider_with_every_place:
  "providerCalls (hookSearchPlaces ai params allPlaces now st)
     = providerCalls st
       @ (if enableAIAnalysis st \<and> places (searchPlaces params allPlaces now) \<noteq> []
          then [BatchAnalyze (places (searchPlaces params allPlaces now))] else [])"
  by (simp add: hookSearchPlaces_def searchPlacesResolved_def batchAnalyzeMutate_nonempty
      responseArrived_def requestSearch_def Let_def)

text \<open>
  C4 (the code at the failing input). A search returns a mock restaurant that carries an
  analysis (\<open>excellent\<close>) already. With AI analysis enabled the hook calls the provider's
  batch analysis with that place all the same; the call throws, so the analysis on display
  stays as it was. Selecting the same place makes no call.
\<close>

theorem batch_call_for_classified_place:
  "map_option classification (aiAnalysis classifiedPlace) = Some EXCELLENT
   \<and> providerCalls (hookSearchPlaces zeroProvider bucharestParams [classifiedPlace] 2 mountedHook)
       = [BatchAnalyze [classifiedPlace]]
   \<and> batchError (hookSearchPlaces zeroProvider bucharestParams [classifiedPlace] 2 mountedHook)
       = Some TypeError
   \<and> map_option classifications
        (searchResult (hookSearchPlaces zeroProvider bucharestParams [classifiedPlace] 2 mountedHook))
       = Some [Some EXCELLENT]
   \<and> providerCalls (selectPlace zeroProvider (Some classifiedPlace) mountedHook) = []"
proof -
  have s: "places (searchPlaces bucharestParams [classifiedPlace] 2) = [classifiedPlace]"
    using places_bucharestResult by (simp add: bucharestResult_def)
  have e: "enableAIAnalysis mountedHook" by (simp add: mountedHook_def)
  have c: "providerCalls (hookSearchPlaces zeroProvider bucharestParams [classifiedPlace] 2 mountedHook)
           = [BatchAnalyze [classifiedPlace]]"
    using s e by (simp add: search_calls_provider_with_every_place mountedHook_def)
  have b: "batchError (hookSearchPlaces zeroProvider bucharestParams [classifiedPlace] 2 mountedHook)
           = Some TypeError"
    using s e
    by (simp add: hookSearchPlaces_def searchPlacesResolved_def batchAnalyzeMutate_nonempty Let_def)
  have r: "searchResult (hookSearchPlaces zeroProvider bucharestParams [classifiedPlace] 2 mountedHook)
           = Some (searchPlaces bucharestParams [classifiedPlace] 2)"
    by (simp add: hookSearchPlaces_def searchResult_searchPlacesResolved)
       (simp add: searchResult_def responseArrived_def requestSearch_def)
  have k: "classifications (searchPlaces bucharestParams [classifiedPlace] 2) = [Some EXCELLENT]"
    by (simp add: classifications_def s classifiedPlace_analysis)
  have n: "providerCalls (selectPlace zeroProvider (Some classifiedPlace) mountedHook) = []"
    by (simp add: selectPlace_skips_classified classifiedPlace_analysis mountedHook_def)
  from c b r k n classifiedPlace_analysis show ?thesis by simp
qed

end
